theory Spec2Isabelle
  imports Main "HOL-Library.AList"
begin

section \<open>Package reader and read-writer of kyaml/kio (pkgio\_reader.go)\<close>

text \<open>
  A shallow embedding of \<^verbatim>\<open>kyaml/kio/pkgio_reader.go\<close>: the in-memory buffer, the
  package tree reader (\<^verbatim>\<open>LocalPackageReader\<close>) with its directory walk, and the
  read-writer (\<^verbatim>\<open>LocalPackageReadWriter\<close>) that deletes stale files on write.
  Everything the file calls but does not define (the operating system, the path
  library, the ignore-file matcher, the byte reader, the package writer, the annotation
  helpers) is either a field of the environment record \<open>env\<close> or a small model of its
  own, each marked as such.
\<close>

subsection \<open>Errors\<close>

text \<open>
  Go errors as values. \<^verbatim>\<open>errors.Wrap\<close> and \<^verbatim>\<open>errors.WrapPrefixf\<close> keep the error
  they wrap; \<^verbatim>\<open>filepath.SkipDir\<close> is the sentinel a walk callback returns to skip a
  directory, so the result of a callback is one of three things.
\<close>

datatype error = GoError string | Wrap error | WrapPrefixf error string

datatype walk_res = NilErr | SkipDir | Err error

subsection \<open>Paths\<close>

text \<open>
  Modelled from the spec: the path library (Go's \<^verbatim>\<open>path/filepath\<close>) is not part of
  the source. An absolute, cleaned path is the list of its components; the root of the
  file system is the empty list. \<^verbatim>\<open>filepath.Rel\<close> of two absolute paths never fails: it
  climbs out of the base with \<^verbatim>\<open>..\<close> where the target is not below it, and yields
  \<^verbatim>\<open>.\<close> where both are equal.
\<close>

type_synonym path = "string list"

definition filepath_Dir :: "path \<Rightarrow> path" where
  "filepath_Dir p = butlast p"

definition filepath_Base :: "path \<Rightarrow> string" where
  "filepath_Base p = (if p = [] then ''/'' else last p)"

fun rel_from :: "path \<Rightarrow> path \<Rightarrow> path" where
  "rel_from [] ts = ts"
| "rel_from (b # bs) [] = replicate (length (b # bs)) ''..''"
| "rel_from (b # bs) (t # ts) =
     (if b = t then rel_from bs ts else replicate (length (b # bs)) ''..'' @ (t # ts))"

definition filepath_Rel :: "path \<Rightarrow> path \<Rightarrow> error + path" where
  "filepath_Rel base targ =
     (let r = rel_from base targ in Inr (if r = [] then [''.''] else r))"

fun clean_step :: "path \<Rightarrow> string \<Rightarrow> path" where
  "clean_step acc c =
     (if c = ''.'' then acc else if c = ''..'' then butlast acc else acc @ [c])"

definition filepath_Join :: "path \<Rightarrow> path \<Rightarrow> path" where
  "filepath_Join a b = foldl clean_step [] (a @ b)"

text \<open>The slash-separated text of a relative path, and of an absolute one.\<close>

fun slash_join :: "path \<Rightarrow> string" where
  "slash_join [] = []"
| "slash_join [x] = x"
| "slash_join (x # y # ys) = x @ ''/'' @ slash_join (y # ys)"

definition path_string :: "path \<Rightarrow> string" where
  "path_string p = (if p = [] then ''/'' else concat (map (\<lambda>c. ''/'' @ c) p))"

text \<open>
  \<^verbatim>\<open>LocalPackageReadWriter.Write\<close> joins the package path as the caller gave it (a
  string) with a relative file path.
\<close>

definition filepath_Join_str :: "string \<Rightarrow> string \<Rightarrow> string" where
  "filepath_Join_str a b = (if a = [] then b else if b = [] then a else a @ ''/'' @ b)"

subsection \<open>Documents and annotations\<close>

text \<open>
  A document (\<^verbatim>\<open>*yaml.RNode\<close>) carries string-keyed annotations and an opaque body.
  A Go \<^verbatim>\<open>map[string]string\<close> is an association list here; \<^verbatim>\<open>m[k] = v\<close> is
  \<open>AList.update\<close>. The two annotation keys are constants of package \<^verbatim>\<open>kioutil\<close>.
\<close>

type_synonym annots = "(string \<times> string) list"

record doc =
  annotations :: annots
  body :: string

definition PathAnnotation :: string where
  "PathAnnotation = ''config.kubernetes.io/path''"

definition IndexAnnotation :: string where
  "IndexAnnotation = ''config.kubernetes.io/index''"

definition requiredResourcePackageAnnotations :: "string list" where
  "requiredResourcePackageAnnotations = [IndexAnnotation, PathAnnotation]"

subsection \<open>The store of annotation maps\<close>

text \<open>
  A Go map is a reference: copying a struct that has a map field copies the reference,
  and a write through either copy is seen through the other. The field
  \<^verbatim>\<open>SetAnnotations\<close> is therefore an optional address (\<open>None\<close> is the nil map) into a
  store of maps; \<open>next_addr\<close> is the next address \<^verbatim>\<open>map[string]string{}\<close> allocates.
\<close>

type_synonym addr = nat

record store =
  cells :: "addr \<Rightarrow> annots"
  next_addr :: addr

definition alloc_map :: "store \<Rightarrow> addr \<times> store" where
  "alloc_map s = (next_addr s, s\<lparr>cells := (cells s)(next_addr s := []), next_addr := Suc (next_addr s)\<rparr>)"

definition map_assign :: "addr \<Rightarrow> string \<Rightarrow> string \<Rightarrow> store \<Rightarrow> store" where
  "map_assign a k v s = s\<lparr>cells := (cells s)(a := AList.update k v (cells s a))\<rparr>"

subsection \<open>The file system\<close>

text \<open>
  Modelled from the spec: a directory tree whose leaf files hold serialized documents.
  \<open>Dir\<close> lists its entries in the order \<^verbatim>\<open>filepath.Walk\<close> reads them (lexical).
  \<open>Faulty e\<close> is an entry that cannot be examined (\<^verbatim>\<open>Lstat\<close> or the directory listing
  fails with \<open>e\<close>).
\<close>

datatype fsnode = File string | Dir "(string \<times> fsnode) list" | Faulty error

fun is_Dir :: "fsnode \<Rightarrow> bool" where
  "is_Dir (Dir es) = True"
| "is_Dir n = False"

fun is_File :: "fsnode \<Rightarrow> bool" where
  "is_File (File c) = True"
| "is_File n = False"

fun lookup :: "fsnode \<Rightarrow> path \<Rightarrow> fsnode option" where
  "lookup n [] = Some n"
| "lookup (Dir es) (x # xs) = (case map_of es x of None \<Rightarrow> None | Some n \<Rightarrow> lookup n xs)"
| "lookup n (x # xs) = None"

text \<open>
  \<^verbatim>\<open>os.Stat\<close>, as \<^verbatim>\<open>ShouldSkipDir\<close> uses it: the path exists, does not exist
  (\<^verbatim>\<open>os.IsNotExist\<close>), or cannot be examined.
\<close>

datatype stat_res = Exists | NotExist | StatErr error

definition os_Stat :: "fsnode \<Rightarrow> path \<Rightarrow> stat_res" where
  "os_Stat fs p =
     (case lookup fs p of
        None \<Rightarrow> NotExist
      | Some (Faulty e) \<Rightarrow> StatErr e
      | Some n \<Rightarrow> Exists)"

subsection \<open>The directory walk\<close>

text \<open>
  Modelled from the spec: \<^verbatim>\<open>filepath.Walk\<close> (Go standard library) visits the root, then
  depth-first every entry in lexical order, calling the callback with the path, whether
  it is a directory, and the error met when examining it. A callback that returns
  \<^verbatim>\<open>SkipDir\<close> on a directory skips its contents; on a file it skips the rest of the
  containing directory; any other error stops the walk. The callback's state \<open>'s\<close> is
  what the Go closure mutates.
\<close>

type_synonym 's walk_fn = "path \<Rightarrow> bool \<Rightarrow> error option \<Rightarrow> 's \<Rightarrow> walk_res \<times> 's"

fun walk :: "'s walk_fn \<Rightarrow> path \<Rightarrow> fsnode \<Rightarrow> 's \<Rightarrow> walk_res \<times> 's"
  and walk_entries :: "'s walk_fn \<Rightarrow> path \<Rightarrow> (string \<times> fsnode) list \<Rightarrow> 's \<Rightarrow> walk_res \<times> 's"
where
  "walk fn p (File c) st = fn p False None st"
| "walk fn p (Faulty e) st = fn p False (Some e) st"
| "walk fn p (Dir es) st =
     (case fn p True None st of
        (NilErr, st') \<Rightarrow> walk_entries fn p es st'
      | (r, st') \<Rightarrow> (r, st'))"
| "walk_entries fn p [] st = (NilErr, st)"
| "walk_entries fn p (e # es) st =
     (case walk fn (p @ [fst e]) (snd e) st of
        (NilErr, st') \<Rightarrow> walk_entries fn p es st'
      | (SkipDir, st') \<Rightarrow> (if is_File (snd e) then (SkipDir, st') else walk_entries fn p es st')
      | (Err x, st') \<Rightarrow> (Err x, st'))"

definition filepath_Walk :: "fsnode \<Rightarrow> path \<Rightarrow> 's walk_fn \<Rightarrow> 's \<Rightarrow> error option \<times> 's" where
  "filepath_Walk fs root fn st =
     (case (case lookup fs root of
              None \<Rightarrow> fn root False (Some (GoError ''lstat: no such file or directory'')) st
            | Some n \<Rightarrow> walk fn root n st) of
        (Err e, st') \<Rightarrow> (Some e, st')
      | (r, st') \<Rightarrow> (None, st'))"

subsection \<open>The environment\<close>

text \<open>
  The collaborators that \<^verbatim>\<open>pkgio_reader.go\<close> calls and does not define, as
  parameters. \<open>'m\<close> is the state of the \<^verbatim>\<open>IgnoreFilesMatcher\<close>, whose methods have
  pointer receivers and may change it.
  \<^item> \<open>filepath_Abs\<close>: \<^verbatim>\<open>filepath.Abs\<close> after \<^verbatim>\<open>filepath.ToSlash\<close>;
  \<^item> \<open>new_matcher\<close>: \<^verbatim>\<open>&IgnoreFilesMatcher{}\<close>; \<open>matchFile\<close>, \<open>matchDir\<close> answer whether a
    path is excluded; \<open>readIgnoreFile\<close> loads the ignore rules of a directory;
  \<^item> \<open>filepath_Match\<close>: \<^verbatim>\<open>filepath.Match\<close> of a pattern and a name;
  \<^item> \<open>decode\<close>: the document codec, from a file's content to its documents;
  \<^item> \<open>GetFileAnnotations\<close>: \<^verbatim>\<open>kioutil.GetFileAnnotations\<close>, of which only the path and
    the error are used;
  \<^item> \<open>pkg_Write\<close>: \<^verbatim>\<open>LocalPackageWriter{PackagePath, ClearAnnotations,
    KeepReaderAnnotations}.Write\<close>;
  \<^item> \<open>os_Remove\<close>: the outcome of \<^verbatim>\<open>os.Remove\<close> on a path;
  \<^item> \<open>range_order\<close>: the order in which \<^verbatim>\<open>range\<close> iterates a set, which Go leaves
    unspecified.
\<close>

record 'm env =
  filepath_Abs :: "string \<Rightarrow> error + path"
  new_matcher :: 'm
  matchFile :: "'m \<Rightarrow> path \<Rightarrow> bool \<times> 'm"
  matchDir :: "'m \<Rightarrow> path \<Rightarrow> bool \<times> 'm"
  readIgnoreFile :: "'m \<Rightarrow> path \<Rightarrow> error option \<times> 'm"
  filepath_Match :: "string \<Rightarrow> string \<Rightarrow> error + bool"
  decode :: "string \<Rightarrow> error + doc list"
  GetFileAnnotations :: "doc \<Rightarrow> error + string"
  pkg_Write :: "string \<Rightarrow> string list \<Rightarrow> bool \<Rightarrow> doc list \<Rightarrow> error option"
  os_Remove :: "string \<Rightarrow> error option"
  range_order :: "string set \<Rightarrow> string list"

subsection \<open>PackageBuffer\<close>

record PackageBuffer =
  Nodes :: "doc list"

definition PackageBuffer_Read :: "PackageBuffer \<Rightarrow> (error + doc list) \<times> PackageBuffer" where
  "PackageBuffer_Read r = (Inr (Nodes r), r)"

definition PackageBuffer_Write :: "PackageBuffer \<Rightarrow> doc list \<Rightarrow> error option \<times> PackageBuffer" where
  "PackageBuffer_Write r nodes = (None, r\<lparr>Nodes := nodes\<rparr>)"

subsection \<open>LocalPackageReader\<close>

record LocalPackageReader =
  Kind :: string
  PackagePath :: string
  PackageFileName :: string
  MatchFilesGlob :: "string list"
  IncludeSubpackages :: bool
  ErrorIfNonResources :: bool
  OmitReaderAnnotations :: bool
  SetAnnotations :: "addr option"

definition DefaultMatch :: "string list" where
  "DefaultMatch = [''*.yaml'', ''*.yml'']"

definition JSONMatch :: "string list" where
  "JSONMatch = [''*.json'']"

definition MatchAll :: "string list" where
  "MatchAll = DefaultMatch @ JSONMatch"

text \<open>
  What the closure passed to \<^verbatim>\<open>filepath.Walk\<close> mutates: the variables \<^verbatim>\<open>operand\<close>,
  \<^verbatim>\<open>pathRelativeTo\<close> and \<^verbatim>\<open>ignoreFilesMatcher\<close> of \<^verbatim>\<open>Read\<close>, the field
  \<^verbatim>\<open>SetAnnotations\<close> of the reader (a copy of the caller's struct, \<^verbatim>\<open>Read\<close> having a
  value receiver), and the store of maps. \<open>opened\<close> records the paths handed to
  \<^verbatim>\<open>os.Open\<close>, in order.
\<close>

record 'm walk_state =
  operand :: "doc list"
  pathRelativeTo :: path
  ignoreFilesMatcher :: 'm
  r_SetAnnotations :: "addr option"
  maps :: store
  opened :: "path list"

text \<open>
  Modelled from the spec: \<^verbatim>\<open>ByteReader.Read\<close> (byte\_reader.go is not part of the
  source) decodes the content and stamps every entry of \<^verbatim>\<open>SetAnnotations\<close> on every
  document, and the document's position in the file as the index annotation unless
  \<^verbatim>\<open>OmitReaderAnnotations\<close> is set. The decimal text of the index is what
  \<^verbatim>\<open>fmt.Sprintf("%d", index)\<close> gives.
\<close>

function string_of_nat :: "nat \<Rightarrow> string" where
  "string_of_nat n =
     (if n < 10 then [char_of (48 + n)]
      else string_of_nat (n div 10) @ [char_of (48 + n mod 10)])"
  by pat_completeness auto
termination
  by (relation "measure id") auto

declare string_of_nat.simps [simp del]

definition stamp :: "annots \<Rightarrow> doc \<Rightarrow> doc" where
  "stamp sa d = d\<lparr>annotations := AList.merge (annotations d) sa\<rparr>"

fun stamp_docs :: "bool \<Rightarrow> annots \<Rightarrow> nat \<Rightarrow> doc list \<Rightarrow> doc list" where
  "stamp_docs omit sa i [] = []"
| "stamp_docs omit sa i (d # ds) =
     stamp (if omit then sa else AList.update IndexAnnotation (string_of_nat i) sa) d
       # stamp_docs omit sa (Suc i) ds"

definition ByteReader_Read :: "'m env \<Rightarrow> bool \<Rightarrow> annots \<Rightarrow> string \<Rightarrow> error + doc list" where
  "ByteReader_Read env omit sa content =
     (case decode env content of
        Inl e \<Rightarrow> Inl e
      | Inr ds \<Rightarrow> Inr (stamp_docs omit sa 0 ds))"

text \<open>
  \<^verbatim>\<open>readFile\<close>: \<^verbatim>\<open>os.Open\<close> fails on a missing or unreadable path; a directory opens
  but cannot be read as a stream; a file is decoded by the byte reader. The reader
  passes its \<^verbatim>\<open>SetAnnotations\<close> map on, whose content is \<open>sa\<close> (nil reads as empty).
\<close>

definition readFile :: "'m env \<Rightarrow> fsnode \<Rightarrow> LocalPackageReader \<Rightarrow> annots \<Rightarrow> path \<Rightarrow> error + doc list" where
  "readFile env fs r sa p =
     (case lookup fs p of
        None \<Rightarrow> Inl (GoError ''open: no such file or directory'')
      | Some (Faulty e) \<Rightarrow> Inl e
      | Some (Dir es) \<Rightarrow> Inl (GoError ''read: is a directory'')
      | Some (File c) \<Rightarrow> ByteReader_Read env (OmitReaderAnnotations r) sa c)"

text \<open>
  \<^verbatim>\<open>ShouldSkipFile\<close>. Despite its name it returns true when the file is to be read.
\<close>

fun match_globs :: "'m env \<Rightarrow> string list \<Rightarrow> string \<Rightarrow> error + bool" where
  "match_globs env [] name = Inr False"
| "match_globs env (g # gs) name =
     (case filepath_Match env g name of
        Inl e \<Rightarrow> Inl (Wrap e)
      | Inr True \<Rightarrow> Inr True
      | Inr False \<Rightarrow> match_globs env gs name)"

definition ShouldSkipFile :: "'m env \<Rightarrow> LocalPackageReader \<Rightarrow> path \<Rightarrow> 'm \<Rightarrow> (error + bool) \<times> 'm" where
  "ShouldSkipFile env r p m =
     (case matchFile env m p of
        (True, m') \<Rightarrow> (Inr False, m')
      | (False, m') \<Rightarrow> (match_globs env (MatchFilesGlob r) (filepath_Base p), m'))"

text \<open>
  \<^verbatim>\<open>initReaderAnnotations\<close>: a nil map is replaced by a fresh one in the reader's own
  field; the path is then written into the map the field refers to.
\<close>

definition initReaderAnnotations ::
  "LocalPackageReader \<Rightarrow> string \<Rightarrow> addr option \<times> store \<Rightarrow> addr option \<times> store" where
  "initReaderAnnotations r p rs =
     (let (a, s) = (case fst rs of
                      None \<Rightarrow> (let (a, s) = alloc_map (snd rs) in (a, s))
                    | Some a \<Rightarrow> (a, snd rs))
      in if \<not> OmitReaderAnnotations r then (Some a, map_assign a PathAnnotation p s)
         else (Some a, s))"

text \<open>\<^verbatim>\<open>ShouldSkipDir\<close>, on the absolute path of a directory.\<close>

definition ShouldSkipDir :: "'m env \<Rightarrow> fsnode \<Rightarrow> LocalPackageReader \<Rightarrow> path \<Rightarrow> 'm \<Rightarrow> walk_res \<times> 'm" where
  "ShouldSkipDir env fs r p m =
     (if PackageFileName r = [] then
        (case matchDir env m p of
           (True, m') \<Rightarrow> (SkipDir, m')
         | (False, m') \<Rightarrow> (NilErr, m'))
      else
        (case os_Stat fs (filepath_Join p [PackageFileName r]) of
           NotExist \<Rightarrow>
             (case matchDir env m p of
                (True, m') \<Rightarrow> (SkipDir, m')
              | (False, m') \<Rightarrow> (NilErr, m'))
         | StatErr e \<Rightarrow> (Err (Wrap e), m)
         | Exists \<Rightarrow>
             if \<not> IncludeSubpackages r then (SkipDir, m)
             else (case readIgnoreFile env m p of
                     (None, m') \<Rightarrow> (NilErr, m')
                   | (Some e, m') \<Rightarrow> (Err e, m'))))"

text \<open>
  The part of the walk callback that reads a file which passed the filter (the lines
  after the call of \<^verbatim>\<open>ShouldSkipFile\<close>): the path is made relative, written into the
  annotation map, and the file is read and its documents appended.
\<close>

definition read_matching ::
  "'m env \<Rightarrow> fsnode \<Rightarrow> LocalPackageReader \<Rightarrow> path \<Rightarrow> 'm walk_state \<Rightarrow> walk_res \<times> 'm walk_state" where
  "read_matching env fs r p st =
     (case filepath_Rel (pathRelativeTo st) p of
        Inl e \<Rightarrow> (Err (WrapPrefixf e (path_string (pathRelativeTo st))), st)
      | Inr rel \<Rightarrow>
          (let (a, s) = initReaderAnnotations r (slash_join rel) (r_SetAnnotations st, maps st);
               full = filepath_Join (pathRelativeTo st) rel;
               st2 = st\<lparr>r_SetAnnotations := a, maps := s, opened := opened st @ [full]\<rparr>
           in case readFile env fs r (case a of None \<Rightarrow> [] | Some x \<Rightarrow> cells s x) full of
                Inl e \<Rightarrow> (Err (WrapPrefixf e (path_string full)), st2)
              | Inr nodes \<Rightarrow> (NilErr, st2\<lparr>operand := operand st2 @ nodes\<rparr>)))"

text \<open>
  The callback of \<^verbatim>\<open>LocalPackageReader.Read\<close>. \<open>root\<close> is \<^verbatim>\<open>r.PackagePath\<close> after
  \<^verbatim>\<open>filepath.Abs\<close>; \<open>r\<close> holds the other fields, the glob patterns already defaulted.
\<close>

definition visit ::
  "'m env \<Rightarrow> fsnode \<Rightarrow> LocalPackageReader \<Rightarrow> path \<Rightarrow> 'm walk_state walk_fn" where
  "visit env fs r root p isdir err st =
     (case err of
        Some e \<Rightarrow> (Err (Wrap e), st)
      | None \<Rightarrow>
          if p = root \<and> isdir then
            (case readIgnoreFile env (ignoreFilesMatcher st) p of
               (None, m') \<Rightarrow> (NilErr, st\<lparr>pathRelativeTo := root, ignoreFilesMatcher := m'\<rparr>)
             | (Some e, m') \<Rightarrow> (Err e, st\<lparr>pathRelativeTo := root, ignoreFilesMatcher := m'\<rparr>))
          else
            (let st1 = (if p = root then st\<lparr>pathRelativeTo := filepath_Dir root\<rparr> else st)
             in if isdir then
                  (case ShouldSkipDir env fs r p (ignoreFilesMatcher st1) of
                     (res, m') \<Rightarrow> (res, st1\<lparr>ignoreFilesMatcher := m'\<rparr>))
                else
                  (case ShouldSkipFile env r p (ignoreFilesMatcher st1) of
                     (Inl e, m') \<Rightarrow> (Err e, st1\<lparr>ignoreFilesMatcher := m'\<rparr>)
                   | (Inr False, m') \<Rightarrow> (NilErr, st1\<lparr>ignoreFilesMatcher := m'\<rparr>)
                   | (Inr True, m') \<Rightarrow> read_matching env fs r p (st1\<lparr>ignoreFilesMatcher := m'\<rparr>))))"

text \<open>
  \<^verbatim>\<open>LocalPackageReader.Read\<close> returns the documents read so far together with the
  error: the pair of the error and the final state of the walk, whose \<open>operand\<close> is the
  returned slice (nil, that is empty, on the two early returns).
\<close>

definition init_state :: "'m env \<Rightarrow> LocalPackageReader \<Rightarrow> store \<Rightarrow> 'm walk_state" where
  "init_state env r s =
     \<lparr>operand = [], pathRelativeTo = [], ignoreFilesMatcher = new_matcher env,
      r_SetAnnotations = SetAnnotations r, maps = s, opened = []\<rparr>"

definition default_globs :: "LocalPackageReader \<Rightarrow> LocalPackageReader" where
  "default_globs r = (if length (MatchFilesGlob r) = 0 then r\<lparr>MatchFilesGlob := DefaultMatch\<rparr> else r)"

definition LocalPackageReader_Read ::
  "'m env \<Rightarrow> fsnode \<Rightarrow> LocalPackageReader \<Rightarrow> store \<Rightarrow> error option \<times> 'm walk_state" where
  "LocalPackageReader_Read env fs r s =
     (if PackagePath r = [] then (Some (GoError ''must specify package path''), init_state env r s)
      else
        (case filepath_Abs env (PackagePath r) of
           Inl e \<Rightarrow> (Some (Wrap e), init_state env r s)
         | Inr root \<Rightarrow> filepath_Walk fs root (visit env fs (default_globs r) root) (init_state env r s)))"

subsection \<open>LocalPackageReadWriter\<close>

text \<open>
  \<open>files\<close> is a \<^verbatim>\<open>sets.String\<close>; the nil set and the empty set behave alike in every
  use the source makes of it (\<^verbatim>\<open>Difference\<close> ranges over the receiver), and both are
  \<open>{}\<close> here.
\<close>

record LocalPackageReadWriter =
  rw_Kind :: string
  KeepReaderAnnotations :: bool
  rw_PackagePath :: string
  rw_PackageFileName :: string
  rw_MatchFilesGlob :: "string list"
  rw_IncludeSubpackages :: bool
  rw_ErrorIfNonResources :: bool
  rw_OmitReaderAnnotations :: bool
  rw_SetAnnotations :: "addr option"
  NoDeleteFiles :: bool
  files :: "string set"

fun getFiles_loop :: "'m env \<Rightarrow> doc list \<Rightarrow> string set \<Rightarrow> error + string set" where
  "getFiles_loop env [] val = Inr val"
| "getFiles_loop env (n # ns) val =
     (case GetFileAnnotations env n of
        Inl e \<Rightarrow> Inl (Wrap e)
      | Inr p \<Rightarrow> getFiles_loop env ns (insert p val))"

definition getFiles :: "'m env \<Rightarrow> doc list \<Rightarrow> error + string set" where
  "getFiles env nodes = getFiles_loop env nodes {}"

text \<open>
  The reader that \<^verbatim>\<open>LocalPackageReadWriter.Read\<close> builds: the composite literal names
  six fields, the other two keep their zero values.
\<close>

definition rw_reader :: "LocalPackageReadWriter \<Rightarrow> LocalPackageReader" where
  "rw_reader r =
     \<lparr>Kind = [],
      PackagePath = rw_PackagePath r,
      PackageFileName = rw_PackageFileName r,
      MatchFilesGlob = rw_MatchFilesGlob r,
      IncludeSubpackages = rw_IncludeSubpackages r,
      ErrorIfNonResources = rw_ErrorIfNonResources r,
      OmitReaderAnnotations = False,
      SetAnnotations = rw_SetAnnotations r\<rparr>"

definition LocalPackageReadWriter_Read ::
  "'m env \<Rightarrow> fsnode \<Rightarrow> LocalPackageReadWriter \<Rightarrow> store
     \<Rightarrow> (error + doc list) \<times> LocalPackageReadWriter \<times> store" where
  "LocalPackageReadWriter_Read env fs r s =
     (case LocalPackageReader_Read env fs (rw_reader r) s of
        (Some e, st) \<Rightarrow> (Inl (Wrap e), r, maps st)
      | (None, st) \<Rightarrow>
          if \<not> NoDeleteFiles r then
            (case getFiles env (operand st) of
               Inl e \<Rightarrow> (Inl (Wrap e), r\<lparr>files := {}\<rparr>, maps st)
             | Inr f \<Rightarrow> (Inr (operand st), r\<lparr>files := f\<rparr>, maps st))
          else (Inr (operand st), r, maps st))"

text \<open>
  The delete loop of \<^verbatim>\<open>Write\<close>, over the files in iteration order. It returns the error
  and the calls of \<^verbatim>\<open>os.Remove\<close> it made: the relative path and the outcome of each.
\<close>

fun delete_loop :: "'m env \<Rightarrow> string \<Rightarrow> string list \<Rightarrow> error option \<times> (string \<times> error option) list" where
  "delete_loop env pkg [] = (None, [])"
| "delete_loop env pkg (f # fs) =
     (case os_Remove env (filepath_Join_str pkg f) of
        Some e \<Rightarrow> (Some (Wrap e), [(f, Some e)])
      | None \<Rightarrow> (case delete_loop env pkg fs of (r, log) \<Rightarrow> (r, (f, None) # log)))"

text \<open>The keys of \<^verbatim>\<open>r.SetAnnotations\<close>, which \<^verbatim>\<open>Write\<close> collects into \<^verbatim>\<open>clear\<close>.\<close>

definition clear_keys :: "LocalPackageReadWriter \<Rightarrow> store \<Rightarrow> string list" where
  "clear_keys r s = (case rw_SetAnnotations r of None \<Rightarrow> [] | Some a \<Rightarrow> map fst (cells s a))"

definition LocalPackageReadWriter_Write ::
  "'m env \<Rightarrow> LocalPackageReadWriter \<Rightarrow> store \<Rightarrow> doc list
     \<Rightarrow> error option \<times> (string \<times> error option) list" where
  "LocalPackageReadWriter_Write env r s nodes =
     (case getFiles env nodes of
        Inl e \<Rightarrow> (Some (Wrap e), [])
      | Inr newFiles \<Rightarrow>
          (case pkg_Write env (rw_PackagePath r) (clear_keys r s) (KeepReaderAnnotations r) nodes of
             Some e \<Rightarrow> (Some (Wrap e), [])
           | None \<Rightarrow> delete_loop env (rw_PackagePath r) (range_order env (files r - newFiles))))"

text \<open>The files a call of \<^verbatim>\<open>Write\<close> deleted: those whose \<^verbatim>\<open>os.Remove\<close> succeeded.\<close>

definition deleted :: "(string \<times> error option) list \<Rightarrow> string set" where
  "deleted log = set (map fst (filter (\<lambda>c. snd c = None) log))"

definition attempted :: "(string \<times> error option) list \<Rightarrow> string list" where
  "attempted log = map fst log"

text \<open>
  Two notions the statements below use: whether \<^verbatim>\<open>os.Remove\<close> succeeds on a file of
  the package, and the set of paths \<^verbatim>\<open>GetFileAnnotations\<close> reads off a list of
  documents (what \<open>getFiles\<close> collects when no document fails).
\<close>

definition removable :: "'m env \<Rightarrow> string \<Rightarrow> string \<Rightarrow> bool" where
  "removable env pkg f = (os_Remove env (filepath_Join_str pkg f) = None)"

definition doc_paths :: "'m env \<Rightarrow> doc list \<Rightarrow> string set" where
  "doc_paths env nodes =
     set (concat (map (\<lambda>n. case GetFileAnnotations env n of Inl e \<Rightarrow> [] | Inr p \<Rightarrow> [p]) nodes))"

subsection \<open>A concrete environment\<close>

text \<open>
  An instance of the collaborators, for evaluating the model on concrete packages.
  Paths are absolute already, so \<^verbatim>\<open>filepath.Abs\<close> only splits them; glob patterns are
  matched with \<^verbatim>\<open>*\<close>, \<^verbatim>\<open>?\<close> and literal characters; every file decodes to one document
  whose body is the file's content; the ignore matcher excludes nothing and records, as
  its state, the directories whose ignore file it was asked to load; the path annotation
  of a document without one reads as the empty string; writing and removing succeed.
\<close>

fun split_slash :: "string \<Rightarrow> string \<Rightarrow> path" where
  "split_slash acc [] = (if acc = [] then [] else [acc])"
| "split_slash acc (c # cs) =
     (if c = CHR ''/'' then (if acc = [] then split_slash [] cs else acc # split_slash [] cs)
      else split_slash (acc @ [c]) cs)"

fun glob_match :: "string \<Rightarrow> string \<Rightarrow> bool" where
  "glob_match [] name = (name = [])"
| "glob_match (c # cs) [] = (c = CHR ''*'' \<and> glob_match cs [])"
| "glob_match (c # cs) (n # ns) =
     (if c = CHR ''*'' then glob_match cs (n # ns) \<or> (n \<noteq> CHR ''/'' \<and> glob_match (c # cs) ns)
      else (c = n \<or> (c = CHR ''?'' \<and> n \<noteq> CHR ''/'')) \<and> glob_match cs ns)"

definition ex_names :: "string list" where
  "ex_names = [''a.yaml'', ''b.json'', ''c.yml'', ''sub/d.yaml'', ''old.yaml'']"

definition ex_env :: "(path list) env" where
  "ex_env =
     \<lparr>filepath_Abs = (\<lambda>s. Inr (split_slash [] s)),
      new_matcher = [],
      matchFile = (\<lambda>m p. (False, m)),
      matchDir = (\<lambda>m p. (False, m)),
      readIgnoreFile = (\<lambda>m p. (None, m @ [p])),
      filepath_Match = (\<lambda>g n. Inr (glob_match g n)),
      decode = (\<lambda>c. Inr [\<lparr>annotations = [], body = c\<rparr>]),
      GetFileAnnotations = (\<lambda>d. case map_of (annotations d) PathAnnotation of
                                    None \<Rightarrow> Inr [] | Some p \<Rightarrow> Inr p),
      pkg_Write = (\<lambda>pkg clear keep nodes. None),
      os_Remove = (\<lambda>p. None),
      range_order = (\<lambda>S. filter (\<lambda>f. f \<in> S) ex_names)\<rparr>"

text \<open>Variants: the package writer fails; removing \<^verbatim>\<open>/pkg/a.yaml\<close> fails; the metadata
  of no document can be read; the ignore rules exclude every file named \<^verbatim>\<open>a.yaml\<close>.\<close>

definition ex_env_write_fails :: "(path list) env" where
  "ex_env_write_fails = ex_env\<lparr>pkg_Write := (\<lambda>pkg clear keep nodes. Some (GoError ''write failed''))\<rparr>"

definition ex_env_remove_fails :: "(path list) env" where
  "ex_env_remove_fails =
     ex_env\<lparr>os_Remove := (\<lambda>p. if p = ''/pkg/a.yaml'' then Some (GoError ''permission denied'') else None)\<rparr>"


definition ex_env_ignore :: "(path list) env" where
  "ex_env_ignore = ex_env\<lparr>matchFile := (\<lambda>m p. (filepath_Base p = ''a.yaml'', m))\<rparr>"

text \<open>Packages: a flat one; one with a plain sub-directory; one whose root and whose
  sub-directory both hold the marker file \<^verbatim>\<open>Kptfile\<close>.\<close>

definition ex_fs :: fsnode where
  "ex_fs = Dir [(''pkg'', Dir [(''a.yaml'', File ''A''), (''b.json'', File ''B''),
                               (''c.yml'', File ''C'')])]"

definition ex_fs_sub :: fsnode where
  "ex_fs_sub = Dir [(''pkg'', Dir [(''a.yaml'', File ''A''),
                                   (''sub'', Dir [(''d.yaml'', File ''D'')])])]"

definition ex_fs_kpt :: fsnode where
  "ex_fs_kpt = Dir [(''pkg'', Dir [(''Kptfile'', File ''K''), (''a.yaml'', File ''A''),
                                   (''sub'', Dir [(''Kptfile'', File ''K''), (''d.yaml'', File ''D'')])])]"

text \<open>A store with no map yet, and one in which the caller owns a map at address 0.\<close>

definition ex_store :: store where
  "ex_store = \<lparr>cells = (\<lambda>a. []), next_addr = 0\<rparr>"

definition ex_store_shared :: store where
  "ex_store_shared = \<lparr>cells = (\<lambda>a. if a = 0 then [(''team'', ''x'')] else []), next_addr = 1\<rparr>"

text \<open>Readers of \<^verbatim>\<open>/pkg\<close> without and with a marker file name, and of the single file
  \<^verbatim>\<open>/pkg/a.yaml\<close>; read-writers of \<^verbatim>\<open>/pkg\<close>.\<close>

definition ex_reader :: LocalPackageReader where
  "ex_reader =
     \<lparr>Kind = [], PackagePath = ''/pkg'', PackageFileName = [], MatchFilesGlob = [],
      IncludeSubpackages = False, ErrorIfNonResources = False, OmitReaderAnnotations = False,
      SetAnnotations = None\<rparr>"

definition ex_reader_kpt :: LocalPackageReader where
  "ex_reader_kpt = ex_reader\<lparr>PackageFileName := ''Kptfile''\<rparr>"

definition ex_reader_file :: LocalPackageReader where
  "ex_reader_file = ex_reader\<lparr>PackagePath := ''/pkg/a.yaml''\<rparr>"

definition ex_reader_shared :: LocalPackageReader where
  "ex_reader_shared = ex_reader\<lparr>SetAnnotations := Some 0\<rparr>"

definition ex_rw :: LocalPackageReadWriter where
  "ex_rw =
     \<lparr>rw_Kind = [], KeepReaderAnnotations = False, rw_PackagePath = ''/pkg'',
      rw_PackageFileName = [], rw_MatchFilesGlob = [], rw_IncludeSubpackages = False,
      rw_ErrorIfNonResources = False, rw_OmitReaderAnnotations = False,
      rw_SetAnnotations = None, NoDeleteFiles = False, files = {}\<rparr>"


definition ex_rw_omit :: LocalPackageReadWriter where
  "ex_rw_omit = ex_rw\<lparr>rw_OmitReaderAnnotations := True\<rparr>"

definition ex_rw_shared :: LocalPackageReadWriter where
  "ex_rw_shared = ex_rw\<lparr>rw_SetAnnotations := Some 0\<rparr>"

text \<open>The read-writer and the documents after a successful read of the flat package.\<close>

definition ex_rw_read :: LocalPackageReadWriter where
  "ex_rw_read = fst (snd (LocalPackageReadWriter_Read ex_env ex_fs ex_rw ex_store))"

definition ex_docs :: "doc list" where
  "ex_docs = operand (snd (LocalPackageReader_Read ex_env ex_fs ex_reader ex_store))"

section \<open>Properties\<close>

subsection \<open>The delete loop\<close>

lemma delete_loop_attempted:
  "attempted (snd (delete_loop env pkg fs)) =
     takeWhile (removable env pkg) fs @ take 1 (dropWhile (removable env pkg) fs)"
  by (induction fs) (auto simp: attempted_def removable_def split: option.splits prod.splits)

lemma delete_loop_removed_list:
  "map fst (filter (\<lambda>c. snd c = None) (snd (delete_loop env pkg fs))) =
     takeWhile (removable env pkg) fs"
  by (induction fs) (auto simp: removable_def split: option.splits prod.splits)

lemma delete_loop_deleted:
  "deleted (snd (delete_loop env pkg fs)) = set (takeWhile (removable env pkg) fs)"
  unfolding deleted_def delete_loop_removed_list ..

lemma delete_loop_None:
  "fst (delete_loop env pkg fs) = None \<longleftrightarrow> (\<forall>f \<in> set fs. removable env pkg f)"
  by (induction fs) (auto simp: removable_def split: option.splits prod.splits)

lemma delete_loop_error:
  "fst (delete_loop env pkg fs) =
     (case dropWhile (removable env pkg) fs of
        [] \<Rightarrow> None
      | f # rest \<Rightarrow> map_option Wrap (os_Remove env (filepath_Join_str pkg f)))"
proof (induction fs)
  case Nil
  show ?case by simp
next
  case (Cons f fs)
  show ?case
  proof (cases "os_Remove env (filepath_Join_str pkg f)")
    case None
    then have d: "dropWhile (removable env pkg) (f # fs) = dropWhile (removable env pkg) fs"
      by (simp add: removable_def)
    have "fst (delete_loop env pkg (f # fs)) = fst (delete_loop env pkg fs)"
      using None by (simp split: prod.splits)
    then show ?thesis unfolding d using Cons.IH by simp
  next
    case (Some e)
    then show ?thesis by (simp add: removable_def)
  qed
qed

subsection \<open>Claim C1: what Write deletes\<close>

lemma getFiles_loop_Inr:
  "getFiles_loop env ns val = Inr S \<Longrightarrow>
     S = val \<union> {p. \<exists>n \<in> set ns. GetFileAnnotations env n = Inr p}"
  by (induction ns arbitrary: val) (auto split: sum.splits)

lemma doc_paths_eq: "doc_paths env ns = {p. \<exists>n \<in> set ns. GetFileAnnotations env n = Inr p}"
  by (auto simp: doc_paths_def split: sum.splits)

lemma getFiles_Inr: "getFiles env ns = Inr S \<Longrightarrow> S = doc_paths env ns"
  using getFiles_loop_Inr[of env ns "{}" S] by (simp add: getFiles_def doc_paths_eq)

lemma Write_deleted_subset:
  "deleted (snd (LocalPackageReadWriter_Write env r s nodes))
     \<subseteq> set (range_order env (files r - doc_paths env nodes))"
proof (cases "getFiles env nodes")
  case (Inl e)
  then show ?thesis by (simp add: LocalPackageReadWriter_Write_def deleted_def)
next
  case (Inr newFiles)
  then have nf: "newFiles = doc_paths env nodes" by (rule getFiles_Inr)
  show ?thesis
  proof (cases "pkg_Write env (rw_PackagePath r) (clear_keys r s) (KeepReaderAnnotations r) nodes")
    case (Some e)
    with Inr show ?thesis by (simp add: LocalPackageReadWriter_Write_def deleted_def)
  next
    case None
    with Inr nf have w: "LocalPackageReadWriter_Write env r s nodes
        = delete_loop env (rw_PackagePath r) (range_order env (files r - doc_paths env nodes))"
      by (simp add: LocalPackageReadWriter_Write_def)
    show ?thesis unfolding w delete_loop_deleted
      by (auto dest: set_takeWhileD)
  qed
qed

lemma Write_deleted_all:
  assumes "fst (LocalPackageReadWriter_Write env r s nodes) = None"
  shows "deleted (snd (LocalPackageReadWriter_Write env r s nodes))
           = set (range_order env (files r - doc_paths env nodes))"
proof (cases "getFiles env nodes")
  case (Inl e)
  with assms show ?thesis by (simp add: LocalPackageReadWriter_Write_def)
next
  case (Inr newFiles)
  then have nf: "newFiles = doc_paths env nodes" by (rule getFiles_Inr)
  show ?thesis
  proof (cases "pkg_Write env (rw_PackagePath r) (clear_keys r s) (KeepReaderAnnotations r) nodes")
    case (Some e)
    with assms Inr show ?thesis by (simp add: LocalPackageReadWriter_Write_def)
  next
    case None
    let ?fs = "range_order env (files r - doc_paths env nodes)"
    from None Inr nf have w: "LocalPackageReadWriter_Write env r s nodes
        = delete_loop env (rw_PackagePath r) ?fs"
      by (simp add: LocalPackageReadWriter_Write_def)
    with assms have "\<forall>f \<in> set ?fs. removable env (rw_PackagePath r) f"
      by (simp add: delete_loop_None)
    then have tw: "takeWhile (removable env (rw_PackagePath r)) ?fs = ?fs"
      by simp
    show ?thesis unfolding w delete_loop_deleted tw ..
  qed
qed

lemma Read_records:
  assumes "LocalPackageReadWriter_Read env fs r0 s0 = (Inr nodes0, r, s)" and "\<not> NoDeleteFiles r0"
  shows "files r = doc_paths env nodes0"
  using assms
  by (auto simp: LocalPackageReadWriter_Read_def dest!: getFiles_Inr
           split: prod.splits option.splits sum.splits if_splits)

text \<open>
  Claim C1, as amended. Provided \<^verbatim>\<open>range\<close> iterates exactly the elements of the
  difference set (as Go does), the files \<^verbatim>\<open>Write\<close> deletes are always among (the stored
  file set) minus (the path annotations of the documents passed to \<^verbatim>\<open>Write\<close>), and they
  are exactly that difference when \<^verbatim>\<open>Write\<close> returns no error; a \<^verbatim>\<open>Write\<close> that
  returns an error (from reading the annotations, from the package writer, or from a
  removal that fails) may have deleted fewer. With an empty stored set, as before any
  \<^verbatim>\<open>Read\<close>, nothing is deleted; and the stored set left by a successful \<^verbatim>\<open>Read\<close> with
  deletion tracking enabled is the set of path annotations of the documents it returned.
\<close>

theorem Write_deletes_difference:
  assumes "set (range_order env (files r - doc_paths env nodes)) = files r - doc_paths env nodes"
  shows "deleted (snd (LocalPackageReadWriter_Write env r s nodes)) \<subseteq> files r - doc_paths env nodes
       \<and> (fst (LocalPackageReadWriter_Write env r s nodes) = None \<longrightarrow>
            deleted (snd (LocalPackageReadWriter_Write env r s nodes)) = files r - doc_paths env nodes)
       \<and> (files r = {} \<longrightarrow> deleted (snd (LocalPackageReadWriter_Write env r s nodes)) = {})
       \<and> (\<forall>fs r0 s0 nodes0.
            LocalPackageReadWriter_Read env fs r0 s0 = (Inr nodes0, r, s) \<and> \<not> NoDeleteFiles r0 \<longrightarrow>
            files r = doc_paths env nodes0)"
  using assms Write_deleted_subset[of env r s nodes] Write_deleted_all[of env r s nodes]
    Read_records[of env _ _ _ _ r s]
  by (intro conjI) blast+


text \<open>
  The amended statement at the flat package: after reading \<^verbatim>\<open>a.yaml\<close> and \<^verbatim>\<open>c.yml\<close>,
  writing back only the document of \<^verbatim>\<open>a.yaml\<close> deletes exactly \<^verbatim>\<open>c.yml\<close>.
\<close>

theorem Write_deletes_difference_witness:
  "set (range_order ex_env (files ex_rw_read - doc_paths ex_env (take 1 ex_docs)))
     = files ex_rw_read - doc_paths ex_env (take 1 ex_docs)
   \<and> fst (LocalPackageReadWriter_Write ex_env ex_rw_read ex_store (take 1 ex_docs)) = None
   \<and> deleted (snd (LocalPackageReadWriter_Write ex_env ex_rw_read ex_store (take 1 ex_docs)))
       = files ex_rw_read - doc_paths ex_env (take 1 ex_docs)
   \<and> files ex_rw_read - doc_paths ex_env (take 1 ex_docs) = {''c.yml''}"
proof -
  have h: "set (range_order ex_env (files ex_rw_read - doc_paths ex_env (take 1 ex_docs)))
     = files ex_rw_read - doc_paths ex_env (take 1 ex_docs)"
    by code_simp
  have ok: "fst (LocalPackageReadWriter_Write ex_env ex_rw_read ex_store (take 1 ex_docs)) = None"
    by code_simp
  have d: "files ex_rw_read - doc_paths ex_env (take 1 ex_docs) = {''c.yml''}"
    by code_simp
  from Write_deletes_difference[OF h, of ex_store] ok
  have "deleted (snd (LocalPackageReadWriter_Write ex_env ex_rw_read ex_store (take 1 ex_docs)))
       = files ex_rw_read - doc_paths ex_env (take 1 ex_docs)"
    by blast
  with h ok d show ?thesis by blast
qed

text \<open>
  Claim C1 as stated fails where \<^verbatim>\<open>Write\<close> returns early: when the package writer
  fails, nothing is deleted although the difference holds both files read before.
\<close>

theorem Write_deletes_difference_counterexample:
  "deleted (snd (LocalPackageReadWriter_Write ex_env_write_fails ex_rw_read ex_store []))
     \<noteq> files ex_rw_read - doc_paths ex_env_write_fails []"
  by code_simp

subsection \<open>Claim C5: the delete loop and a failed removal\<close>

text \<open>
  Claim C5, as amended. Once the annotations are read and the package writer has
  succeeded, the delete loop of \<^verbatim>\<open>Write\<close> removes the stale files in iteration order
  and stops at the first removal that fails: the files before it are removed, the
  failing one is attempted, the files after it are not attempted, and the error returned
  is that first removal error, wrapped (none if every removal succeeds).
\<close>

theorem Write_stops_at_first_failed_removal:
  assumes "getFiles env nodes = Inr newFiles"
    and "pkg_Write env (rw_PackagePath r) (clear_keys r s) (KeepReaderAnnotations r) nodes = None"
  shows "attempted (snd (LocalPackageReadWriter_Write env r s nodes))
           = takeWhile (removable env (rw_PackagePath r)) (range_order env (files r - newFiles))
             @ take 1 (dropWhile (removable env (rw_PackagePath r)) (range_order env (files r - newFiles)))
       \<and> fst (LocalPackageReadWriter_Write env r s nodes)
           = (case dropWhile (removable env (rw_PackagePath r)) (range_order env (files r - newFiles)) of
                [] \<Rightarrow> None
              | f # rest \<Rightarrow> map_option Wrap (os_Remove env (filepath_Join_str (rw_PackagePath r) f)))"
proof -
  let ?fs = "range_order env (files r - newFiles)"
  have w: "LocalPackageReadWriter_Write env r s nodes = delete_loop env (rw_PackagePath r) ?fs"
    using assms by (simp add: LocalPackageReadWriter_Write_def)
  show ?thesis unfolding w
    using delete_loop_error[of env "rw_PackagePath r" ?fs]
      delete_loop_attempted[of env "rw_PackagePath r" ?fs] by simp
qed

text \<open>
  With \<^verbatim>\<open>a.yaml\<close> and \<^verbatim>\<open>c.yml\<close> stale and the removal of \<^verbatim>\<open>a.yaml\<close> failing, only
  \<^verbatim>\<open>a.yaml\<close> is attempted and its error is returned.
\<close>

theorem Write_stops_at_first_failed_removal_witness:
  "getFiles ex_env_remove_fails [] = Inr {}
   \<and> pkg_Write ex_env_remove_fails (rw_PackagePath ex_rw_read) (clear_keys ex_rw_read ex_store)
        (KeepReaderAnnotations ex_rw_read) [] = None
   \<and> range_order ex_env_remove_fails (files ex_rw_read - {}) = [''a.yaml'', ''c.yml'']
   \<and> attempted (snd (LocalPackageReadWriter_Write ex_env_remove_fails ex_rw_read ex_store [])) = [''a.yaml'']
   \<and> fst (LocalPackageReadWriter_Write ex_env_remove_fails ex_rw_read ex_store [])
       = Some (Wrap (GoError ''permission denied''))"
proof -
  have h1: "getFiles ex_env_remove_fails [] = Inr {}" by code_simp
  have h2: "pkg_Write ex_env_remove_fails (rw_PackagePath ex_rw_read) (clear_keys ex_rw_read ex_store)
        (KeepReaderAnnotations ex_rw_read) [] = None" by code_simp
  have o: "range_order ex_env_remove_fails (files ex_rw_read - {}) = [''a.yaml'', ''c.yml'']"
    by code_simp
  have r1: "\<not> removable ex_env_remove_fails (rw_PackagePath ex_rw_read) ''a.yaml''" by code_simp
  have r2: "os_Remove ex_env_remove_fails (filepath_Join_str (rw_PackagePath ex_rw_read) ''a.yaml'')
              = Some (GoError ''permission denied'')" by code_simp
  from Write_stops_at_first_failed_removal[OF h1 h2] o r1 r2
  have "attempted (snd (LocalPackageReadWriter_Write ex_env_remove_fails ex_rw_read ex_store [])) = [''a.yaml'']
      \<and> fst (LocalPackageReadWriter_Write ex_env_remove_fails ex_rw_read ex_store [])
       = Some (Wrap (GoError ''permission denied''))"
    by simp
  with h1 h2 o show ?thesis by blast
qed

text \<open>
  Claim C5 as stated fails there: \<^verbatim>\<open>c.yml\<close> is in the computed difference and its
  deletion is never attempted.
\<close>

theorem Write_attempts_all_counterexample:
  "''c.yml'' \<in> files ex_rw_read - doc_paths ex_env_remove_fails []
   \<and> ''c.yml'' \<notin> set (attempted (snd (LocalPackageReadWriter_Write ex_env_remove_fails ex_rw_read ex_store [])))"
  by code_simp

subsection \<open>Claim C2: the stored file set after a failed Read\<close>




end
